theory Spec2Isabelle
  imports Complex_Main
begin

section \<open>The C++ type \<open>double\<close>\<close>

text \<open>
  A \<open>double\<close> is either a finite number or one of the three special values of
  IEEE-754: plus infinity, minus infinity and NaN. Finite arithmetic is exact: rounding
  and overflow are not modelled, so a finite \<open>double\<close> is a real number, and the
  results below about finite values are results of real arithmetic. The special values
  follow IEEE-754: an operation on NaN is NaN, \<open>\<infinity> - \<infinity>\<close>, \<open>0 * \<infinity>\<close>,
  \<open>\<infinity> / \<infinity>\<close> and \<open>0 / 0\<close> are NaN, a non-zero number divided by zero is an infinity,
  and every comparison with NaN is false. Zero has no sign: the only zero divisor that
  \<open>odometry.cpp\<close> can meet is the difference of two equal finite numbers, which is
  \<open>+0\<close>, so the sign of the quotient is the sign of the dividend.
\<close>

datatype double = Fin real | PInf | NInf | NaN

fun isfinite :: "double \<Rightarrow> bool" where
  "isfinite (Fin r) = True"
| "isfinite PInf = False"
| "isfinite NInf = False"
| "isfinite NaN = False"

instantiation double :: comm_monoid_add
begin

definition zero_double :: double where
  "zero_double = Fin 0"

fun plus_double :: "double \<Rightarrow> double \<Rightarrow> double" where
  "plus_double (Fin a) (Fin b) = Fin (a + b)"
| "plus_double NaN b = NaN"
| "plus_double a NaN = NaN"
| "plus_double PInf NInf = NaN"
| "plus_double NInf PInf = NaN"
| "plus_double PInf b = PInf"
| "plus_double a PInf = PInf"
| "plus_double NInf b = NInf"
| "plus_double a NInf = NInf"

text \<open>Without rounding, addition is associative and commutative, specials included.\<close>

instance
proof
  fix u v w :: double
  show "0 + u = u"
    unfolding zero_double_def by (cases u; simp)
  show "u + v = v + u"
    by (cases u; cases v; simp)
  show "(u + v) + w = u + (v + w)"
    by (cases u; cases v; cases w; simp)
qed

end

instantiation double :: "{uminus, minus, times, inverse, ord}"
begin

fun uminus_double :: "double \<Rightarrow> double" where
  "uminus_double (Fin a) = Fin (- a)"
| "uminus_double PInf = NInf"
| "uminus_double NInf = PInf"
| "uminus_double NaN = NaN"

definition minus_double :: "double \<Rightarrow> double \<Rightarrow> double" where
  "minus_double a b = a + (- b)"

fun times_double :: "double \<Rightarrow> double \<Rightarrow> double" where
  "times_double (Fin a) (Fin b) = Fin (a * b)"
| "times_double NaN b = NaN"
| "times_double a NaN = NaN"
| "times_double PInf (Fin b) = (if b = 0 then NaN else if 0 < b then PInf else NInf)"
| "times_double NInf (Fin b) = (if b = 0 then NaN else if 0 < b then NInf else PInf)"
| "times_double (Fin a) PInf = (if a = 0 then NaN else if 0 < a then PInf else NInf)"
| "times_double (Fin a) NInf = (if a = 0 then NaN else if 0 < a then NInf else PInf)"
| "times_double PInf PInf = PInf"
| "times_double PInf NInf = NInf"
| "times_double NInf PInf = NInf"
| "times_double NInf NInf = PInf"

fun divide_double :: "double \<Rightarrow> double \<Rightarrow> double" where
  "divide_double (Fin a) (Fin b) =
     (if b = 0 then (if a = 0 then NaN else if 0 < a then PInf else NInf)
      else Fin (a / b))"
| "divide_double NaN b = NaN"
| "divide_double a NaN = NaN"
| "divide_double (Fin a) PInf = Fin 0"
| "divide_double (Fin a) NInf = Fin 0"
| "divide_double PInf (Fin b) = (if 0 \<le> b then PInf else NInf)"
| "divide_double NInf (Fin b) = (if 0 \<le> b then NInf else PInf)"
| "divide_double PInf PInf = NaN"
| "divide_double PInf NInf = NaN"
| "divide_double NInf PInf = NaN"
| "divide_double NInf NInf = NaN"

definition inverse_double :: "double \<Rightarrow> double" where
  "inverse_double a = divide (Fin 1) a"

fun less_double :: "double \<Rightarrow> double \<Rightarrow> bool" where
  "less_double (Fin a) (Fin b) = (a < b)"
| "less_double NaN b = False"
| "less_double a NaN = False"
| "less_double NInf NInf = False"
| "less_double NInf b = True"
| "less_double a NInf = False"
| "less_double PInf b = False"
| "less_double a PInf = True"

fun less_eq_double :: "double \<Rightarrow> double \<Rightarrow> bool" where
  "less_eq_double (Fin a) (Fin b) = (a \<le> b)"
| "less_eq_double NaN b = False"
| "less_eq_double a NaN = False"
| "less_eq_double NInf b = True"
| "less_eq_double a PInf = True"
| "less_eq_double a NInf = False"
| "less_eq_double PInf b = False"

instance ..

end

text \<open>The functions of \<open><cmath>\<close> that \<open>odometry.cpp\<close> calls.\<close>

fun fabs :: "double \<Rightarrow> double" where
  "fabs (Fin a) = Fin \<bar>a\<bar>"
| "fabs PInf = PInf"
| "fabs NInf = PInf"
| "fabs NaN = NaN"

fun cos_d :: "double \<Rightarrow> double" where
  "cos_d (Fin a) = Fin (cos a)"
| "cos_d PInf = NaN"
| "cos_d NInf = NaN"
| "cos_d NaN = NaN"

fun sin_d :: "double \<Rightarrow> double" where
  "sin_d (Fin a) = Fin (sin a)"
| "sin_d PInf = NaN"
| "sin_d NInf = NaN"
| "sin_d NaN = NaN"

section \<open>\<open>rclcpp::Time\<close>\<close>

text \<open>
  A time point is a count of nanoseconds (a signed 64-bit integer, on which
  \<open>odometry.cpp\<close> does no arithmetic); \<open>seconds()\<close> converts it to a \<open>double\<close>,
  which is always finite.
\<close>

datatype Time = Time (nanoseconds: int)

definition seconds :: "Time \<Rightarrow> double" where
  "seconds t = Fin (real_of_int (nanoseconds t) / 1000000000)"

section \<open>The rolling mean accumulator\<close>

text \<open>
  Modelled from the spec: the class \<open>RollingMeanAccumulator\<close>, whose header is not
  part of \<open>odometry.cpp\<close>. It holds the most recent samples, oldest first, in a buffer
  of fixed capacity, and their running sum; the count of valid samples is the number of
  samples held. A capacity of zero is clamped to one at construction.
\<close>

record rolling_mean_accumulator =
  buffer :: "double list"
  running_sum :: double
  capacity :: nat

text \<open>
  Modelled from the spec: the constructor, with an empty buffer; the capacity is at
  least one.
\<close>

definition RollingMeanAccumulator :: "nat \<Rightarrow> rolling_mean_accumulator" where
  "RollingMeanAccumulator n = \<lparr>buffer = [], running_sum = Fin 0, capacity = max 1 n\<rparr>"

text \<open>Modelled from the spec: the count of valid samples.\<close>

definition valid_count :: "rolling_mean_accumulator \<Rightarrow> nat" where
  "valid_count a = length (buffer a)"

text \<open>
  Modelled from the spec: \<open>accumulate\<close> inserts a sample, and evicts the oldest one first when the buffer
  is at capacity. (With nothing to evict, which needs a capacity of zero, the sample is
  only inserted.)
\<close>

definition accumulate :: "double \<Rightarrow> rolling_mean_accumulator \<Rightarrow> rolling_mean_accumulator" where
  "accumulate val a =
     (if valid_count a < capacity a then
        a\<lparr>buffer := buffer a @ [val], running_sum := running_sum a + val\<rparr>
      else
        (case buffer a of
           [] \<Rightarrow> a\<lparr>buffer := [val], running_sum := running_sum a + val\<rparr>
         | oldest # rest \<Rightarrow>
             a\<lparr>buffer := rest @ [val], running_sum := (running_sum a - oldest) + val\<rparr>))"

text \<open>
  Modelled from the spec: \<open>getRollingMean\<close> is the running sum divided by \<open>min(count, capacity)\<close>, and
  0 when no sample has been inserted yet.
\<close>

definition getRollingMean :: "rolling_mean_accumulator \<Rightarrow> double" where
  "getRollingMean a =
     (if valid_count a = 0 then Fin 0
      else running_sum a / Fin (real (min (valid_count a) (capacity a))))"

section \<open>The class \<open>Odometry\<close>\<close>

text \<open>
  The data members of \<open>Odometry\<close>, in the order of the constructor's initialiser list.
  A C++ member \<open>name_\<close> is the field \<open>name_m\<close> (an Isabelle name cannot end with an
  underscore), and the C++ variable \<open>linear\<close> is written \<open>linear'\<close> (\<open>linear\<close> is a
  constant of HOL).
\<close>

record odometry =
  timestamp_m :: Time
  x_m :: double
  y_m :: double
  heading_m :: double
  linear_m :: double
  angular_m :: double
  wheel_separation_m :: double
  left_wheel_radius_m :: double
  right_wheel_radius_m :: double
  left_wheel_old_pos_m :: double
  right_wheel_old_pos_m :: double
  linear_old_pos_m :: double
  angular_old_pos_m :: double
  velocity_rolling_window_size_m :: nat
  linear_accumulator_m :: rolling_mean_accumulator
  angular_accumulator_m :: rolling_mean_accumulator

text \<open>The constructor \<open>Odometry::Odometry(size_t velocity_rolling_window_size)\<close>.\<close>

definition Odometry :: "nat \<Rightarrow> odometry" where
  "Odometry velocity_rolling_window_size =
     \<lparr>timestamp_m = Time 0,
      x_m = Fin 0,
      y_m = Fin 0,
      heading_m = Fin 0,
      linear_m = Fin 0,
      angular_m = Fin 0,
      wheel_separation_m = Fin 0,
      left_wheel_radius_m = Fin 0,
      right_wheel_radius_m = Fin 0,
      left_wheel_old_pos_m = Fin 0,
      right_wheel_old_pos_m = Fin 0,
      linear_old_pos_m = Fin 0,
      angular_old_pos_m = Fin 0,
      velocity_rolling_window_size_m = velocity_rolling_window_size,
      linear_accumulator_m = RollingMeanAccumulator velocity_rolling_window_size,
      angular_accumulator_m = RollingMeanAccumulator velocity_rolling_window_size\<rparr>"

definition resetAccumulators :: "odometry \<Rightarrow> odometry" where
  "resetAccumulators s =
     (let s1 = s\<lparr>linear_accumulator_m :=
                   RollingMeanAccumulator (velocity_rolling_window_size_m s)\<rparr>
      in s1\<lparr>angular_accumulator_m :=
               RollingMeanAccumulator (velocity_rolling_window_size_m s1)\<rparr>)"

definition init :: "Time \<Rightarrow> odometry \<Rightarrow> odometry" where
  "init time s = (resetAccumulators s)\<lparr>timestamp_m := time\<rparr>"

definition integrateRungeKutta2 :: "double \<Rightarrow> double \<Rightarrow> odometry \<Rightarrow> odometry" where
  "integrateRungeKutta2 linear' angular s =
     (let direction = heading_m s + angular * Fin 0.5;
          s1 = s\<lparr>x_m := x_m s + linear' * cos_d direction\<rparr>;
          s2 = s1\<lparr>y_m := y_m s1 + linear' * sin_d direction\<rparr>
      in s2\<lparr>heading_m := heading_m s2 + angular\<rparr>)"

definition integrateExact :: "double \<Rightarrow> double \<Rightarrow> odometry \<Rightarrow> odometry" where
  "integrateExact linear' angular s =
     (if fabs angular < Fin 0.000001 then integrateRungeKutta2 linear' angular s
      else
        (let heading_old = heading_m s;
             r = linear' / angular;
             s1 = s\<lparr>heading_m := heading_m s + angular\<rparr>;
             s2 = s1\<lparr>x_m := x_m s1 + r * (sin_d (heading_m s1) - sin_d heading_old)\<rparr>
         in s2\<lparr>y_m := y_m s2 + (- r) * (cos_d (heading_m s2) - cos_d heading_old)\<rparr>))"

text \<open>
  \<open>updateFromVelocity\<close> returns a \<open>bool\<close> and the new state. It has one
  \<open>return\<close> statement.
\<close>

definition updateFromVelocity ::
  "double \<Rightarrow> double \<Rightarrow> Time \<Rightarrow> odometry \<Rightarrow> bool \<times> odometry" where
  "updateFromVelocity linear_vel angular_vel time s =
     (let dt = seconds time - seconds (timestamp_m s);
          linear' = linear_vel;
          angular = angular_vel;
          s1 = integrateExact linear' angular s;
          s2 = s1\<lparr>timestamp_m := time\<rparr>;
          s3 = s2\<lparr>linear_accumulator_m := accumulate (linear' / dt) (linear_accumulator_m s2)\<rparr>;
          s4 = s3\<lparr>angular_accumulator_m := accumulate (angular / dt) (angular_accumulator_m s3)\<rparr>;
          s5 = s4\<lparr>linear_m := getRollingMean (linear_accumulator_m s4)\<rparr>;
          s6 = s5\<lparr>angular_m := getRollingMean (angular_accumulator_m s5)\<rparr>
      in (True, s6))"

text \<open>
  What a call of \<open>update\<close> hands back. In \<open>odometry.cpp\<close> the block of
  \<open>if (dt < 0.0001)\<close> is closed only by the brace at the end of the function body, so
  the block is \<open>return false; updateFromVelocity(linear, angular, time); return true;\<close>
  and its last two statements are never reached. When the condition is false, control
  reaches the end of the function without a \<open>return\<close> statement: the behaviour of the
  call is undefined in C++ and no value is returned (\<open>FallsOffEnd\<close>).
\<close>

datatype returned = Return bool | FallsOffEnd

definition update :: "double \<Rightarrow> double \<Rightarrow> Time \<Rightarrow> odometry \<Rightarrow> returned \<times> odometry" where
  "update linear_pos angular_pos time s =
     (let linear_est_vel = linear_pos - linear_old_pos_m s;
          angular_est_vel = angular_pos - angular_old_pos_m s;
          s1 = s\<lparr>linear_old_pos_m := linear_pos\<rparr>;
          s2 = s1\<lparr>angular_old_pos_m := angular_pos\<rparr>;
          linear' = linear_est_vel;
          angular = angular_est_vel;
          dt = seconds time - seconds (timestamp_m s2)
      in if dt < Fin 0.0001 then (Return False, s2)
         else (FallsOffEnd, s2))"

definition updateOpenLoop :: "double \<Rightarrow> double \<Rightarrow> Time \<Rightarrow> odometry \<Rightarrow> odometry" where
  "updateOpenLoop linear' angular time s =
     (let s1 = s\<lparr>linear_m := linear'\<rparr>;
          s2 = s1\<lparr>angular_m := angular\<rparr>;
          dt = seconds time - seconds (timestamp_m s2);
          s3 = s2\<lparr>timestamp_m := time\<rparr>
      in integrateExact (linear' * dt) (angular * dt) s3)"

definition resetOdometry :: "odometry \<Rightarrow> odometry" where
  "resetOdometry s =
     (let s1 = s\<lparr>x_m := Fin 0\<rparr>;
          s2 = s1\<lparr>y_m := Fin 0\<rparr>
      in s2\<lparr>heading_m := Fin 0\<rparr>)"

definition setWheelParams :: "double \<Rightarrow> double \<Rightarrow> double \<Rightarrow> odometry \<Rightarrow> odometry" where
  "setWheelParams wheel_separation left_wheel_radius right_wheel_radius s =
     (let s1 = s\<lparr>wheel_separation_m := wheel_separation\<rparr>;
          s2 = s1\<lparr>left_wheel_radius_m := left_wheel_radius\<rparr>
      in s2\<lparr>right_wheel_radius_m := right_wheel_radius\<rparr>)"

definition setVelocityRollingWindowSize :: "nat \<Rightarrow> odometry \<Rightarrow> odometry" where
  "setVelocityRollingWindowSize velocity_rolling_window_size s =
     resetAccumulators (s\<lparr>velocity_rolling_window_size_m := velocity_rolling_window_size\<rparr>)"

section \<open>Runs of integration steps\<close>

text \<open>
  A run of consecutive calls \<open>integrateExact(linear, angular)\<close> on one estimator, one
  call for each pair of the list, in order.
\<close>

fun integrate_steps :: "(double \<times> double) list \<Rightarrow> odometry \<Rightarrow> odometry" where
  "integrate_steps [] s = s"
| "integrate_steps ((linear', angular) # steps) s =
     integrate_steps steps (integrateExact linear' angular s)"

section \<open>Arithmetic of \<open>double\<close>\<close>

lemma add_Fin_0 [simp]: "a + Fin 0 = a"
  by (cases a) simp_all

lemma Fin_0_add [simp]: "Fin 0 + a = a"
  by (cases a) simp_all

lemma times_half: "a * Fin (1 / 2) = a / Fin 2"
  by (cases a) simp_all

text \<open>Multiplication by a finite factor distributes over a sum, whatever the summands.\<close>

lemma distrib_Fin: "(a + b) * Fin c = a * Fin c + b * Fin c"
  by (cases a; cases b) (simp_all add: distrib_right)

lemma sum_list_replicate_Fin: "sum_list (replicate n (Fin a)) = Fin (real n * a)"
  by (induction n) (simp_all add: zero_double_def algebra_simps)

lemma nonfinite_add: "\<not> isfinite v \<Longrightarrow> \<not> isfinite (a + v)"
  by (cases a; cases v) simp_all

lemma nonfinite_div_Fin: "\<not> isfinite v \<Longrightarrow> \<not> isfinite (v / Fin c)"
  by (cases v) simp_all

lemma div_zero_nonfinite: "\<not> isfinite (v / Fin 0)"
  by (cases v) simp_all

lemma seconds_diff_self: "seconds t - seconds t = Fin 0"
  by (simp add: seconds_def minus_double_def)

section \<open>The accumulator after a sample\<close>

lemma last_buffer_accumulate: "last (buffer (accumulate v a)) = v"
  by (simp add: accumulate_def split: list.splits)

lemma valid_count_accumulate: "valid_count (accumulate v a) \<noteq> 0"
  by (simp add: accumulate_def valid_count_def split: list.splits)

lemma running_sum_accumulate_nonfinite:
  "\<not> isfinite v \<Longrightarrow> \<not> isfinite (running_sum (accumulate v a))"
  by (simp add: accumulate_def nonfinite_add split: list.splits)

lemma getRollingMean_accumulate_nonfinite:
  "\<not> isfinite v \<Longrightarrow> \<not> isfinite (getRollingMean (accumulate v a))"
  by (simp add: getRollingMean_def valid_count_accumulate nonfinite_div_Fin
        running_sum_accumulate_nonfinite)

text \<open>
  The example of the spec: with a window of 3, the samples 1, 2, 3, 4 give the rolling
  means 1, 1.5, 2, 3.
\<close>

lemma rolling_mean_window_3:
  "map getRollingMean
     [accumulate (Fin 1) (RollingMeanAccumulator 3),
      accumulate (Fin 2) (accumulate (Fin 1) (RollingMeanAccumulator 3)),
      accumulate (Fin 3) (accumulate (Fin 2) (accumulate (Fin 1) (RollingMeanAccumulator 3))),
      accumulate (Fin 4) (accumulate (Fin 3) (accumulate (Fin 2)
        (accumulate (Fin 1) (RollingMeanAccumulator 3))))] =
   [Fin 1, Fin 1.5, Fin 2, Fin 3]"
  by (simp add: getRollingMean_def accumulate_def RollingMeanAccumulator_def valid_count_def
        minus_double_def)

section \<open>What the integration step touches\<close>

text \<open>\<open>integrateExact\<close> writes the pose and no other member.\<close>

lemma integrateExact_frame:
  "timestamp_m (integrateExact l a s) = timestamp_m s"
  "linear_m (integrateExact l a s) = linear_m s"
  "angular_m (integrateExact l a s) = angular_m s"
  "wheel_separation_m (integrateExact l a s) = wheel_separation_m s"
  "left_wheel_radius_m (integrateExact l a s) = left_wheel_radius_m s"
  "right_wheel_radius_m (integrateExact l a s) = right_wheel_radius_m s"
  "left_wheel_old_pos_m (integrateExact l a s) = left_wheel_old_pos_m s"
  "right_wheel_old_pos_m (integrateExact l a s) = right_wheel_old_pos_m s"
  "linear_old_pos_m (integrateExact l a s) = linear_old_pos_m s"
  "angular_old_pos_m (integrateExact l a s) = angular_old_pos_m s"
  "velocity_rolling_window_size_m (integrateExact l a s) = velocity_rolling_window_size_m s"
  "linear_accumulator_m (integrateExact l a s) = linear_accumulator_m s"
  "angular_accumulator_m (integrateExact l a s) = angular_accumulator_m s"
  by (simp_all add: integrateExact_def integrateRungeKutta2_def Let_def)

lemma heading_integrateExact: "heading_m (integrateExact l a s) = heading_m s + a"
  by (simp add: integrateExact_def integrateRungeKutta2_def Let_def)

lemma heading_integrate_steps:
  "heading_m (integrate_steps steps s) = heading_m s + sum_list (map snd steps)"
proof (induction steps arbitrary: s)
  case Nil
  show ?case by (simp add: zero_double_def)
next
  case (Cons p steps)
  obtain l a where p: "p = (l, a)" by (cases p)
  show ?case
    by (simp add: p Cons.IH heading_integrateExact add.assoc)
qed

section \<open>\<open>update\<close>\<close>

text \<open>
  A call of \<open>update\<close> that is not rejected: the previous-sample cache is overwritten,
  nothing else is done, and no value is returned.
\<close>

lemma update_not_rejected:
  "\<not> seconds time - seconds (timestamp_m s) < Fin 0.0001 \<Longrightarrow>
   update linear_pos angular_pos time s =
     (FallsOffEnd, s\<lparr>linear_old_pos_m := linear_pos, angular_old_pos_m := angular_pos\<rparr>)"
  by (simp add: update_def Let_def)

text \<open>
  Claim C1, as the code has it: a call \<open>update(linear_pos, angular_pos, time)\<close> with
  \<open>dt = time - timestamp_ < 1e-4\<close> seconds returns false and leaves the pose, the
  velocity state, the stored timestamp, the wheel parameters and both accumulators
  unchanged; the previous-sample cache (\<open>linear_old_pos_\<close>, \<open>angular_old_pos_\<close>) is
  overwritten with the new samples, since the two assignments come before the test.
\<close>

theorem update_rejected_overwrites_cache:
  assumes "seconds time - seconds (timestamp_m s) < Fin 0.0001"
  shows "update linear_pos angular_pos time s =
           (Return False,
            s\<lparr>linear_old_pos_m := linear_pos, angular_old_pos_m := angular_pos\<rparr>)"
  using assms by (simp add: update_def Let_def)

text \<open>
  The estimator is initialised at 1 s and \<open>update(1.0, 0.0, time)\<close> is called 50
  microseconds later.
\<close>

theorem update_rejected_overwrites_cache_witness:
  "seconds (Time 1000050000) - seconds (timestamp_m (init (Time 1000000000) (Odometry 10)))
     < Fin 0.0001 \<and>
   update (Fin 1) (Fin 0) (Time 1000050000) (init (Time 1000000000) (Odometry 10)) =
     (Return False,
      (init (Time 1000000000) (Odometry 10))
        \<lparr>linear_old_pos_m := Fin 1, angular_old_pos_m := Fin 0\<rparr>)"
proof -
  have h: "seconds (Time 1000050000) - seconds (timestamp_m (init (Time 1000000000) (Odometry 10)))
             < Fin 0.0001"
    by (simp add: seconds_def init_def minus_double_def)
  show ?thesis
    using h update_rejected_overwrites_cache [OF h, of "Fin 1" "Fin 0"] by simp
qed

text \<open>
  Claim C1 as it is written fails there: the call is rejected and the previous-sample
  cache has changed, from 0 to 1.
\<close>

theorem update_rejected_mutates_cache_counterexample:
  "seconds (Time 1000050000) - seconds (timestamp_m (init (Time 1000000000) (Odometry 10)))
     < Fin 0.0001 \<and>
   fst (update (Fin 1) (Fin 0) (Time 1000050000) (init (Time 1000000000) (Odometry 10))) =
     Return False \<and>
   snd (update (Fin 1) (Fin 0) (Time 1000050000) (init (Time 1000000000) (Odometry 10))) \<noteq>
     init (Time 1000000000) (Odometry 10) \<and>
   linear_old_pos_m (init (Time 1000000000) (Odometry 10)) = Fin 0 \<and>
   linear_old_pos_m
     (snd (update (Fin 1) (Fin 0) (Time 1000050000) (init (Time 1000000000) (Odometry 10)))) =
     Fin 1"
proof -
  let ?s = "init (Time 1000000000) (Odometry 10)"
  let ?r = "update (Fin 1) (Fin 0) (Time 1000050000) ?s"
  have dt: "seconds (Time 1000050000) - seconds (timestamp_m ?s) < Fin 0.0001"
    by (simp add: seconds_def init_def minus_double_def)
  have r: "?r = (Return False, ?s\<lparr>linear_old_pos_m := Fin 1, angular_old_pos_m := Fin 0\<rparr>)"
    using dt by (simp add: update_def Let_def)
  have old: "linear_old_pos_m ?s = Fin 0"
    by (simp add: init_def resetAccumulators_def Odometry_def Let_def)
  have new: "linear_old_pos_m (snd ?r) = Fin 1"
    by (simp add: r)
  from old new have "snd ?r \<noteq> ?s" by auto
  with dt r old new show ?thesis by simp
qed

text \<open>
  Claim C2: a call \<open>update(linear_pos, angular_pos, time)\<close> with \<open>dt \<ge> 1e-4\<close> seconds
  should integrate the deltas through \<open>updateFromVelocity\<close> and return true. The code
  at such a call: the estimator is initialised at 1 s and \<open>update(1.0, 0.0, time)\<close> is
  called one second later. The call is not rejected, it returns no value, and it leaves
  the pose, the velocity, the timestamp and the accumulators as they were, where the
  step of \<open>updateFromVelocity\<close> on the deltas \<open>(1.0 - 0.0, 0.0 - 0.0)\<close> moves \<open>x\<close>
  to 1, sets the velocity to 1 and advances the timestamp.
\<close>

theorem update_accepted_falls_off_end:
  "\<not> seconds (Time 2000000000) - seconds (timestamp_m (init (Time 1000000000) (Odometry 10)))
       < Fin 0.0001 \<and>
   update (Fin 1) (Fin 0) (Time 2000000000) (init (Time 1000000000) (Odometry 10)) =
     (FallsOffEnd,
      (init (Time 1000000000) (Odometry 10))
        \<lparr>linear_old_pos_m := Fin 1, angular_old_pos_m := Fin 0\<rparr>) \<and>
   x_m (snd (update (Fin 1) (Fin 0) (Time 2000000000) (init (Time 1000000000) (Odometry 10)))) =
     Fin 0 \<and>
   timestamp_m
     (snd (update (Fin 1) (Fin 0) (Time 2000000000) (init (Time 1000000000) (Odometry 10)))) =
     Time 1000000000 \<and>
   fst (updateFromVelocity (Fin 1 - Fin 0) (Fin 0 - Fin 0) (Time 2000000000)
          (init (Time 1000000000) (Odometry 10))) = True \<and>
   x_m (snd (updateFromVelocity (Fin 1 - Fin 0) (Fin 0 - Fin 0) (Time 2000000000)
               (init (Time 1000000000) (Odometry 10)))) = Fin 1 \<and>
   linear_m (snd (updateFromVelocity (Fin 1 - Fin 0) (Fin 0 - Fin 0) (Time 2000000000)
                    (init (Time 1000000000) (Odometry 10)))) = Fin 1 \<and>
   timestamp_m (snd (updateFromVelocity (Fin 1 - Fin 0) (Fin 0 - Fin 0) (Time 2000000000)
                       (init (Time 1000000000) (Odometry 10)))) = Time 2000000000"
  by (simp add: update_def updateFromVelocity_def integrateExact_def integrateRungeKutta2_def
        init_def resetAccumulators_def Odometry_def RollingMeanAccumulator_def accumulate_def
        getRollingMean_def valid_count_def Let_def seconds_def minus_double_def)

section \<open>\<open>updateFromVelocity\<close>\<close>

text \<open>
  Claim C3: a call \<open>updateFromVelocity(linear_vel, angular_vel, time)\<close> returns true,
  whatever \<open>dt\<close> is. The pose is the one that \<open>integrateExact\<close> makes of the raw values
  \<open>linear_vel\<close> and \<open>angular_vel\<close> (they are not multiplied by \<open>dt\<close>); the samples
  \<open>linear_vel / dt\<close> and \<open>angular_vel / dt\<close>, with \<open>dt\<close> taken against the timestamp
  stored before the call, are inserted into the linear and the angular accumulator; the
  velocity state is the rolling mean of each accumulator after the insertion; and the
  stored timestamp is \<open>time\<close>.
\<close>

theorem updateFromVelocity_step:
  "let dt = seconds time - seconds (timestamp_m s);
       r = updateFromVelocity linear_vel angular_vel time s;
       s' = snd r
   in fst r = True \<and>
      x_m s' = x_m (integrateExact linear_vel angular_vel s) \<and>
      y_m s' = y_m (integrateExact linear_vel angular_vel s) \<and>
      heading_m s' = heading_m (integrateExact linear_vel angular_vel s) \<and>
      linear_accumulator_m s' = accumulate (linear_vel / dt) (linear_accumulator_m s) \<and>
      angular_accumulator_m s' = accumulate (angular_vel / dt) (angular_accumulator_m s) \<and>
      linear_m s' = getRollingMean (linear_accumulator_m s') \<and>
      angular_m s' = getRollingMean (angular_accumulator_m s') \<and>
      timestamp_m s' = time"
  by (simp add: updateFromVelocity_def Let_def integrateExact_frame)

text \<open>
  Claim C10: \<open>updateFromVelocity\<close> divides by \<open>dt\<close> without a guard. At a call whose
  timestamp is the stored one, \<open>dt\<close> is 0, the two samples \<open>linear_vel / dt\<close> and
  \<open>angular_vel / dt\<close> that go into the accumulators are not finite, and neither is the
  velocity state after the call, which returns true. This holds in every state and for
  all velocities; the first call after \<open>init(time)\<close> with the same \<open>time\<close> is such
  a call.
\<close>

theorem updateFromVelocity_zero_dt_nonfinite:
  "let dt = seconds (timestamp_m s) - seconds (timestamp_m s);
       r = updateFromVelocity linear_vel angular_vel (timestamp_m s) s;
       s' = snd r;
       r0 = updateFromVelocity linear_vel angular_vel time (init time (Odometry n))
   in dt = Fin 0 \<and>
      \<not> isfinite (linear_vel / dt) \<and> \<not> isfinite (angular_vel / dt) \<and>
      fst r = True \<and>
      last (buffer (linear_accumulator_m s')) = linear_vel / dt \<and>
      last (buffer (angular_accumulator_m s')) = angular_vel / dt \<and>
      \<not> isfinite (linear_m s') \<and> \<not> isfinite (angular_m s') \<and>
      \<not> isfinite (linear_m (snd r0)) \<and> \<not> isfinite (angular_m (snd r0))"
  by (simp add: Let_def seconds_diff_self div_zero_nonfinite updateFromVelocity_def
        integrateExact_frame last_buffer_accumulate getRollingMean_accumulate_nonfinite
        init_def)

section \<open>\<open>integrateExact\<close>\<close>

text \<open>
  The two branches at the initial pose: one metre straight ahead, and a quarter turn of
  radius 1, which ends at \<open>(1, 1)\<close> with heading \<open>pi / 2\<close>.
\<close>

lemma integrateExact_straight:
  "x_m (integrateExact (Fin 1) (Fin 0) (Odometry 10)) = Fin 1 \<and>
   y_m (integrateExact (Fin 1) (Fin 0) (Odometry 10)) = Fin 0 \<and>
   heading_m (integrateExact (Fin 1) (Fin 0) (Odometry 10)) = Fin 0"
  by (simp add: integrateExact_def integrateRungeKutta2_def Odometry_def Let_def)

lemma integrateExact_quarter_turn:
  "x_m (integrateExact (Fin (pi / 2)) (Fin (pi / 2)) (Odometry 10)) = Fin 1 \<and>
   y_m (integrateExact (Fin (pi / 2)) (Fin (pi / 2)) (Odometry 10)) = Fin 1 \<and>
   heading_m (integrateExact (Fin (pi / 2)) (Fin (pi / 2)) (Odometry 10)) = Fin (pi / 2)"
proof -
  have "1 \<le> 500000 * pi" using pi_ge_two by linarith
  then have "\<not> fabs (Fin (pi / 2)) < Fin 0.000001" by simp
  then show ?thesis
    by (simp add: integrateExact_def Odometry_def Let_def minus_double_def)
qed

text \<open>
  Claim C4: for every pose and every pair of displacements \<open>(d_lin, d_ang)\<close>,
  \<open>integrateExact\<close> branches on \<open>|d_ang| < 1e-6\<close>. Below the threshold it makes the
  midpoint step: \<open>x += d_lin * cos(heading + d_ang/2)\<close>,
  \<open>y += d_lin * sin(heading + d_ang/2)\<close>, \<open>heading += d_ang\<close>. Otherwise it makes the
  exact arc step with \<open>r = d_lin / d_ang\<close>: the new heading is \<open>heading + d_ang\<close>,
  \<open>x += r * (sin(new heading) - sin(heading))\<close> and
  \<open>y += -r * (cos(new heading) - cos(heading))\<close>.
\<close>

theorem integrateExact_branches:
  "integrateExact d_lin d_ang s =
     (if fabs d_ang < Fin 0.000001 then
        s\<lparr>x_m := x_m s + d_lin * cos_d (heading_m s + d_ang / Fin 2),
          y_m := y_m s + d_lin * sin_d (heading_m s + d_ang / Fin 2),
          heading_m := heading_m s + d_ang\<rparr>
      else
        s\<lparr>heading_m := heading_m s + d_ang,
          x_m := x_m s + (d_lin / d_ang) * (sin_d (heading_m s + d_ang) - sin_d (heading_m s)),
          y_m := y_m s +
                 (- (d_lin / d_ang)) * (cos_d (heading_m s + d_ang) - cos_d (heading_m s))\<rparr>)"
  by (simp add: integrateExact_def integrateRungeKutta2_def Let_def times_half)

text \<open>One exact arc step from a finite heading, in real arithmetic.\<close>

lemma exact_step_Fin:
  assumes "heading_m s = Fin h" and "\<not> \<bar>a\<bar> < 1 / 1000000"
  shows "heading_m (integrateExact (Fin l) (Fin a) s) = Fin (h + a)"
    and "x_m (integrateExact (Fin l) (Fin a) s) = x_m s + Fin (l / a * (sin (h + a) - sin h))"
    and "y_m (integrateExact (Fin l) (Fin a) s) = y_m s + Fin (- (l / a) * (cos (h + a) - cos h))"
proof -
  from assms(2) have "a \<noteq> 0" by auto
  with assms show "heading_m (integrateExact (Fin l) (Fin a) s) = Fin (h + a)"
    and "x_m (integrateExact (Fin l) (Fin a) s) = x_m s + Fin (l / a * (sin (h + a) - sin h))"
    and "y_m (integrateExact (Fin l) (Fin a) s) = y_m s + Fin (- (l / a) * (cos (h + a) - cos h))"
    by (simp_all add: integrateExact_def Let_def minus_double_def)
qed

text \<open>
  After \<open>n\<close> equal arc steps the displacement telescopes: it is the one of a single arc
  of angle \<open>n * a\<close> and the same radius.
\<close>

lemma arc_steps:
  assumes big: "\<not> \<bar>a\<bar> < 1 / 1000000"
  shows "heading_m s = Fin h \<Longrightarrow>
         heading_m (integrate_steps (replicate n (Fin l, Fin a)) s) = Fin (h + real n * a) \<and>
         x_m (integrate_steps (replicate n (Fin l, Fin a)) s) =
           x_m s + Fin (l / a * (sin (h + real n * a) - sin h)) \<and>
         y_m (integrate_steps (replicate n (Fin l, Fin a)) s) =
           y_m s + Fin (- (l / a) * (cos (h + real n * a) - cos h))"
proof (induction n arbitrary: s h)
  case 0
  then show ?case by simp
next
  case (Suc n)
  let ?s1 = "integrateExact (Fin l) (Fin a) s"
  note step = exact_step_Fin [OF Suc.prems big, of l]
  have arg: "h + a + real n * a = h + real (Suc n) * a"
    by (simp add: algebra_simps)
  have "heading_m ?s1 = Fin (h + a)" by (rule step(1))
  from Suc.IH [OF this] show ?case
    by (simp add: step arg add.assoc algebra_simps)
qed

text \<open>
  Claim C5 (arc closure): from every pose with a finite heading, a run of \<open>n\<close> steps
  of \<open>integrateExact\<close> with the same finite deltas \<open>(d_lin, d_ang)\<close>, hence the same
  ratio \<open>d_lin / d_ang\<close>, where \<open>|d_ang| \<ge> 1e-6\<close> and the angular deltas sum to
  \<open>2 * pi\<close>, ends at the \<open>(x, y)\<close> where it started. (The sum is \<open>2 * pi\<close> only if
  \<open>n \<ge> 1\<close>.)
\<close>

theorem arc_closure:
  assumes "isfinite (heading_m s)"
    and "Fin 0.000001 \<le> fabs (Fin d_ang)"
    and "sum_list (map snd (replicate n (Fin d_lin, Fin d_ang))) = Fin (2 * pi)"
  shows "x_m (integrate_steps (replicate n (Fin d_lin, Fin d_ang)) s) = x_m s \<and>
         y_m (integrate_steps (replicate n (Fin d_lin, Fin d_ang)) s) = y_m s"
proof -
  from assms(1) obtain h where h: "heading_m s = Fin h"
    by (cases "heading_m s") simp_all
  from assms(2) have big: "\<not> \<bar>d_ang\<bar> < 1 / 1000000" by simp
  from assms(3) have full: "real n * d_ang = 2 * pi"
    by (simp add: sum_list_replicate_Fin)
  have "sin (h + real n * d_ang) = sin h" and "cos (h + real n * d_ang) = cos h"
    by (simp_all add: full)
  with arc_steps [OF big h, of n d_lin] show ?thesis by simp
qed

text \<open>Four quarter turns of radius \<open>2 / pi\<close> from the initial pose.\<close>

theorem arc_closure_witness:
  "isfinite (heading_m (Odometry 10)) \<and> Fin 0.000001 \<le> fabs (Fin (pi / 2)) \<and>
   sum_list (map snd (replicate 4 (Fin 1, Fin (pi / 2)))) = Fin (2 * pi) \<and>
   x_m (integrate_steps (replicate 4 (Fin 1, Fin (pi / 2))) (Odometry 10)) = x_m (Odometry 10) \<and>
   y_m (integrate_steps (replicate 4 (Fin 1, Fin (pi / 2))) (Odometry 10)) = y_m (Odometry 10)"
proof -
  have h1: "isfinite (heading_m (Odometry 10))" by (simp add: Odometry_def)
  have "1 \<le> 500000 * pi" using pi_ge_two by linarith
  then have h2: "Fin 0.000001 \<le> fabs (Fin (pi / 2))" by simp
  have h3: "sum_list (map snd (replicate 4 (Fin 1, Fin (pi / 2)))) = Fin (2 * pi)"
    by (simp add: numeral_eq_Suc)
  show ?thesis using h1 h2 h3 arc_closure [OF h1 h2 h3] by simp
qed

text \<open>A step with angular delta 0 from a finite heading.\<close>

lemma straight_step:
  assumes "heading_m s = Fin h"
  shows "heading_m (integrateExact d (Fin 0) s) = Fin h"
    and "x_m (integrateExact d (Fin 0) s) = x_m s + d * Fin (cos h)"
    and "y_m (integrateExact d (Fin 0) s) = y_m s + d * Fin (sin h)"
  using assms by (simp_all add: integrateExact_def integrateRungeKutta2_def Let_def)

lemma straight_steps:
  "heading_m s = Fin h \<Longrightarrow>
   heading_m (integrate_steps (map (\<lambda>d. (d, Fin 0)) ds) s) = Fin h \<and>
   x_m (integrate_steps (map (\<lambda>d. (d, Fin 0)) ds) s) = x_m s + sum_list ds * Fin (cos h) \<and>
   y_m (integrate_steps (map (\<lambda>d. (d, Fin 0)) ds) s) = y_m s + sum_list ds * Fin (sin h)"
proof (induction ds arbitrary: s)
  case Nil
  then show ?case by (simp add: zero_double_def)
next
  case (Cons d ds)
  note step = straight_step [OF Cons.prems, of d]
  from Cons.IH [OF step(1)] show ?case
    by (simp add: step distrib_Fin add.assoc)
qed

text \<open>
  Claim C6 (straight-line exactness): from every pose with a finite heading, after a
  run of steps with linear deltas \<open>ds\<close> and angular delta 0 each, the heading is the
  starting heading, and \<open>(x, y)\<close> is the start plus the sum of the linear deltas times
  \<open>(cos(heading), sin(heading))\<close>. With angular delta 0 the two integration functions
  are the same step, and a step with both deltas 0 leaves the state as it was.
\<close>

theorem straight_line_exact:
  assumes "isfinite (heading_m s)"
  shows "heading_m (integrate_steps (map (\<lambda>d. (d, Fin 0)) ds) s) = heading_m s \<and>
         x_m (integrate_steps (map (\<lambda>d. (d, Fin 0)) ds) s) =
           x_m s + sum_list ds * cos_d (heading_m s) \<and>
         y_m (integrate_steps (map (\<lambda>d. (d, Fin 0)) ds) s) =
           y_m s + sum_list ds * sin_d (heading_m s) \<and>
         integrateRungeKutta2 d (Fin 0) s = integrateExact d (Fin 0) s \<and>
         integrateExact (Fin 0) (Fin 0) s = s"
proof -
  from assms obtain h where h: "heading_m s = Fin h"
    by (cases "heading_m s") simp_all
  have "integrateExact (Fin 0) (Fin 0) s = s"
    by (simp add: integrateExact_def integrateRungeKutta2_def Let_def h)
  moreover have "integrateRungeKutta2 d (Fin 0) s = integrateExact d (Fin 0) s"
    by (simp add: integrateExact_def)
  ultimately show ?thesis using straight_steps [OF h, of ds] by (simp add: h)
qed

text \<open>Two steps of 1 m and 2 m along heading 0 from the initial pose end at \<open>x = 3\<close>.\<close>

theorem straight_line_exact_witness:
  "isfinite (heading_m (Odometry 10)) \<and>
   heading_m (integrate_steps (map (\<lambda>d. (d, Fin 0)) [Fin 1, Fin 2]) (Odometry 10)) = Fin 0 \<and>
   x_m (integrate_steps (map (\<lambda>d. (d, Fin 0)) [Fin 1, Fin 2]) (Odometry 10)) = Fin 3 \<and>
   y_m (integrate_steps (map (\<lambda>d. (d, Fin 0)) [Fin 1, Fin 2]) (Odometry 10)) = Fin 0"
proof -
  have h: "isfinite (heading_m (Odometry 10))" by (simp add: Odometry_def)
  show ?thesis
    using h straight_line_exact [OF h, of "[Fin 1, Fin 2]"] by (simp add: Odometry_def)
qed

text \<open>
  Claim C9: the heading is never normalised or wrapped. In both integration functions
  the new heading is the old heading plus the angular delta, so after any run of
  integration steps the heading is its value before the run plus the sum of the angular
  deltas of the run, and after a reset it is that sum.
\<close>

theorem heading_accumulates_unwrapped:
  "heading_m (integrateRungeKutta2 d_lin d_ang s) = heading_m s + d_ang \<and>
   heading_m (integrateExact d_lin d_ang s) = heading_m s + d_ang \<and>
   heading_m (integrate_steps steps s) = heading_m s + sum_list (map snd steps) \<and>
   heading_m (integrate_steps steps (resetOdometry s)) = sum_list (map snd steps)"
  by (simp add: heading_integrate_steps heading_integrateExact)
     (simp add: integrateRungeKutta2_def resetOdometry_def Let_def)

section \<open>\<open>updateOpenLoop\<close> and \<open>resetOdometry\<close>\<close>

text \<open>
  Claim C7: a call \<open>updateOpenLoop(linear, angular, time)\<close> sets the velocity state to
  \<open>(linear, angular)\<close>, without the accumulators and without differencing (both
  accumulators and the previous-sample cache stay as they were); \<open>dt\<close> is taken
  against the timestamp stored before the call; the stored timestamp is \<open>time\<close>
  afterwards; and the pose is the one that \<open>integrateExact\<close> makes of the displacements
  \<open>(linear * dt, angular * dt)\<close>.
\<close>

theorem updateOpenLoop_step:
  "let dt = seconds time - seconds (timestamp_m s);
       s' = updateOpenLoop linear_cmd angular_cmd time s;
       p = integrateExact (linear_cmd * dt) (angular_cmd * dt) s
   in linear_m s' = linear_cmd \<and> angular_m s' = angular_cmd \<and>
      timestamp_m s' = time \<and>
      x_m s' = x_m p \<and> y_m s' = y_m p \<and> heading_m s' = heading_m p \<and>
      linear_accumulator_m s' = linear_accumulator_m s \<and>
      angular_accumulator_m s' = angular_accumulator_m s \<and>
      linear_old_pos_m s' = linear_old_pos_m s \<and>
      angular_old_pos_m s' = angular_old_pos_m s"
  by (simp add: updateOpenLoop_def Let_def integrateExact_def integrateRungeKutta2_def)

text \<open>
  Claim C8: in every state, \<open>resetOdometry()\<close> sets \<open>x\<close>, \<open>y\<close> and the heading to
  0 and changes nothing else: the velocity state, the stored timestamp, the
  previous-sample cache, the wheel parameters, the window size and both accumulators are
  as before.
\<close>

theorem resetOdometry_zeroes_pose_only:
  "let s' = resetOdometry s
   in x_m s' = Fin 0 \<and> y_m s' = Fin 0 \<and> heading_m s' = Fin 0 \<and>
      linear_m s' = linear_m s \<and> angular_m s' = angular_m s \<and>
      timestamp_m s' = timestamp_m s \<and>
      linear_old_pos_m s' = linear_old_pos_m s \<and>
      angular_old_pos_m s' = angular_old_pos_m s \<and>
      left_wheel_old_pos_m s' = left_wheel_old_pos_m s \<and>
      right_wheel_old_pos_m s' = right_wheel_old_pos_m s \<and>
      wheel_separation_m s' = wheel_separation_m s \<and>
      left_wheel_radius_m s' = left_wheel_radius_m s \<and>
      right_wheel_radius_m s' = right_wheel_radius_m s \<and>
      velocity_rolling_window_size_m s' = velocity_rolling_window_size_m s \<and>
      linear_accumulator_m s' = linear_accumulator_m s \<and>
      angular_accumulator_m s' = angular_accumulator_m s"
  by (simp add: resetOdometry_def Let_def)

end
